theory Spec2Isabelle
  imports Main
begin

section \<open>Python strings\<close>

text \<open>
  A Python \<open>str\<close> is a sequence of code points. It is modelled as a \<open>string\<close> in which
  every \<open>char\<close> stands for one code point below 256, so \<open>length\<close> is Python's \<open>len\<close>
  and \<open>take n\<close> is the slice \<open>s[:n]\<close>. Case mapping and the blank test are Python's on
  that range. The one literal of the sources outside the range, the bullet U+2022 of two
  output templates, is kept as an opaque three-character constant: no length or slice in
  the sources is taken of a text that holds it.
\<close>

definition upper_letters :: string where
  "upper_letters = ''ABCDEFGHIJKLMNOPQRSTUVWXYZ'' @
     [CHR 0xC0, CHR 0xC1, CHR 0xC2, CHR 0xC3, CHR 0xC4, CHR 0xC5, CHR 0xC6, CHR 0xC7,
      CHR 0xC8, CHR 0xC9, CHR 0xCA, CHR 0xCB, CHR 0xCC, CHR 0xCD, CHR 0xCE, CHR 0xCF,
      CHR 0xD0, CHR 0xD1, CHR 0xD2, CHR 0xD3, CHR 0xD4, CHR 0xD5, CHR 0xD6,
      CHR 0xD8, CHR 0xD9, CHR 0xDA, CHR 0xDB, CHR 0xDC, CHR 0xDD, CHR 0xDE]"

definition lower_letters :: string where
  "lower_letters = ''abcdefghijklmnopqrstuvwxyz'' @
     [CHR 0xE0, CHR 0xE1, CHR 0xE2, CHR 0xE3, CHR 0xE4, CHR 0xE5, CHR 0xE6, CHR 0xE7,
      CHR 0xE8, CHR 0xE9, CHR 0xEA, CHR 0xEB, CHR 0xEC, CHR 0xED, CHR 0xEE, CHR 0xEF,
      CHR 0xF0, CHR 0xF1, CHR 0xF2, CHR 0xF3, CHR 0xF4, CHR 0xF5, CHR 0xF6,
      CHR 0xF8, CHR 0xF9, CHR 0xFA, CHR 0xFB, CHR 0xFC, CHR 0xFD, CHR 0xFE]"

definition lower_char :: "char \<Rightarrow> char" where
  "lower_char c = (case map_of (zip upper_letters lower_letters) c of
                     None \<Rightarrow> c | Some d \<Rightarrow> d)"

text \<open>\<open>s.lower()\<close>\<close>

definition py_lower :: "string \<Rightarrow> string" where
  "py_lower s = map lower_char s"

text \<open>
  \<open>s.title()\<close>: the first letter of every run of letters in upper case, the others in
  lower case. The sources apply it to the keys of the two configured tables only, which
  are ASCII, so the letters are the ASCII ones.
\<close>

definition ascii_upper :: string where
  "ascii_upper = ''ABCDEFGHIJKLMNOPQRSTUVWXYZ''"

definition ascii_lower :: string where
  "ascii_lower = ''abcdefghijklmnopqrstuvwxyz''"

definition ascii_to_upper :: "char \<Rightarrow> char" where
  "ascii_to_upper c = (case map_of (zip ascii_lower ascii_upper) c of
                         None \<Rightarrow> c | Some d \<Rightarrow> d)"

definition ascii_to_lower :: "char \<Rightarrow> char" where
  "ascii_to_lower c = (case map_of (zip ascii_upper ascii_lower) c of
                         None \<Rightarrow> c | Some d \<Rightarrow> d)"

fun title_from :: "bool \<Rightarrow> string \<Rightarrow> string" where
  "title_from prev [] = []"
| "title_from prev (c # cs) =
     (if c \<in> set (ascii_upper @ ascii_lower)
      then (if prev then ascii_to_lower c else ascii_to_upper c) # title_from True cs
      else c # title_from False cs)"

definition py_title :: "string \<Rightarrow> string" where
  "py_title s = title_from False s"

text \<open>The characters \<open>str.isspace\<close> accepts, which \<open>s.strip()\<close> removes at both ends.\<close>

definition is_space :: "char \<Rightarrow> bool" where
  "is_space c \<longleftrightarrow> c \<in> set [CHR 0x09, CHR 0x0A, CHR 0x0B, CHR 0x0C, CHR 0x0D,
                             CHR 0x1C, CHR 0x1D, CHR 0x1E, CHR 0x1F, CHR 0x20,
                             CHR 0x85, CHR 0xA0]"

definition py_strip :: "string \<Rightarrow> string" where
  "py_strip s = rev (dropWhile is_space (rev (dropWhile is_space s)))"

text \<open>\<open>s.startswith(p)\<close> and the substring test \<open>sub in s\<close>\<close>

fun starts_with :: "string \<Rightarrow> string \<Rightarrow> bool" where
  "starts_with [] s = True"
| "starts_with (p # ps) [] = False"
| "starts_with (p # ps) (c # cs) = (p = c \<and> starts_with ps cs)"

fun py_in :: "string \<Rightarrow> string \<Rightarrow> bool" where
  "py_in sub [] = (sub = [])"
| "py_in sub (c # cs) = (starts_with sub (c # cs) \<or> py_in sub cs)"

text \<open>
  \<open>s.replace(old, new)\<close>: the occurrences of \<open>old\<close> are found from the left and do not
  overlap; an empty \<open>old\<close> matches before every character and at the end.
\<close>

function replace_from :: "string \<Rightarrow> string \<Rightarrow> string \<Rightarrow> string" where
  "replace_from old new [] = []"
| "replace_from old new (c # cs) =
     (if old \<noteq> [] \<and> starts_with old (c # cs)
      then new @ replace_from old new (drop (length old) (c # cs))
      else c # replace_from old new cs)"
  by pat_completeness auto
termination
  by (relation "measure (\<lambda>(old, new, s). length s)") auto

definition py_replace :: "string \<Rightarrow> string \<Rightarrow> string \<Rightarrow> string" where
  "py_replace s old new =
     (if old = [] then new @ concat (map (\<lambda>c. c # new) s) else replace_from old new s)"

text \<open>
  \<open>s.split(sep)\<close> for a non-empty separator (the sources split on the literal
  \<open>'\n\n'\<close> only; Python raises \<open>ValueError\<close> on an empty one). \<open>cur\<close> is the piece read
  so far.
\<close>

function split_from :: "string \<Rightarrow> string \<Rightarrow> string \<Rightarrow> string list" where
  "split_from sep cur [] = [cur]"
| "split_from sep cur (c # cs) =
     (if sep \<noteq> [] \<and> starts_with sep (c # cs)
      then cur # split_from sep [] (drop (length sep) (c # cs))
      else split_from sep (cur @ [c]) cs)"
  by pat_completeness auto
termination
  by (relation "measure (\<lambda>(sep, cur, s). length s)") auto

definition py_split :: "string \<Rightarrow> string \<Rightarrow> string list" where
  "py_split s sep = split_from sep [] s"

text \<open>\<open>sep.join(parts)\<close>\<close>

fun py_join :: "string \<Rightarrow> string list \<Rightarrow> string" where
  "py_join sep [] = []"
| "py_join sep [x] = x"
| "py_join sep (x # y # ys) = x @ sep @ py_join sep (y # ys)"

text \<open>Truth value of a string in a condition: the empty string is false.\<close>

definition truthy :: "string \<Rightarrow> bool" where
  "truthy s \<longleftrightarrow> s \<noteq> []"

section \<open>Client: relevance ranking\<close>

text \<open>The keyword table of \<open>_determine_relevant_tools\<close>, in declaration order.\<close>

definition tool_keywords :: "(string \<times> string list) list" where
  "tool_keywords =
     [(''get_profile_overview'',
         [''overview'', ''about'', ''background'', ''who is'', ''introduction'']),
      (''get_experience'',
         [''experience'', ''work'', ''job'', ''career'', ''professional'', ''employment'']),
      (''get_publications'',
         [''publication'', ''paper'', ''research'', ''conference'', ''academic'']),
      (''get_career_timeline'',
         [''timeline'', ''history'', ''when'', ''career path'', ''progression'']),
      (''get_social_links'',
         [''social'', ''linkedin'', ''instagram'', ''facebook'', ''youtube'', ''contact''])]"

text \<open>\<open>any(keyword in query_lower for keyword in keywords)\<close>\<close>

definition any_in :: "string list \<Rightarrow> string \<Rightarrow> bool" where
  "any_in keywords query_lower = list_ex (\<lambda>keyword. py_in keyword query_lower) keywords"

text \<open>The loop over the table: the tools with a keyword in the lowercased query.\<close>

definition keyword_tools :: "string \<Rightarrow> string list" where
  "keyword_tools query_lower =
     map fst (filter (\<lambda>(tool, keywords). any_in keywords query_lower) tool_keywords)"

text \<open>The words that make a query a search query.\<close>

definition search_words :: "string list" where
  "search_words = [''find'', ''search'', ''look for'', ''about'']"

text \<open>
  \<open>query.replace("search for", "").replace("find", "").replace("look for", "").strip()\<close>,
  the value of the local \<open>search_query\<close>, taken of the query as typed, not of its
  lowercased form.
\<close>

definition search_argument :: "string \<Rightarrow> string" where
  "search_argument query =
     py_strip (py_replace (py_replace (py_replace query ''search for'' '''') ''find'' '''')
                 ''look for'' '''')"

definition determine_relevant_tools :: "string \<Rightarrow> string list" where
  "determine_relevant_tools query =
     (let query_lower = py_lower query;
          tools = keyword_tools query_lower;
          tools = (if tools = [] then [''get_profile_overview'', ''get_experience'']
                   else tools);
          tools = (if any_in search_words query_lower
                   then (if truthy (search_argument query)
                         then ''search_profile_content'' # tools else tools)
                   else tools)
      in take 3 tools)"

section \<open>Server: configuration and results\<close>

text \<open>The two tables of \<open>HarisProfileServer.__init__\<close>, in insertion order.\<close>

definition profile_urls :: "(string \<times> string) list" where
  "profile_urls =
     [(''overview'', ''https://sites.google.com/view/haris-gulzar/home''),
      (''experience'', ''https://sites.google.com/view/haris-gulzar/experience''),
      (''publications'', ''https://sites.google.com/view/haris-gulzar/publications''),
      (''career_timeline'', ''https://sites.google.com/view/haris-gulzar/career-timeline'')]"

definition social_urls :: "(string \<times> string) list" where
  "social_urls =
     [(''linkedin'', ''https://www.linkedin.com/in/haris-gulzar/''),
      (''instagram'', ''https://www.instagram.com/japanviaharis/''),
      (''facebook'', ''https://www.facebook.com/mharisgulzar/''),
      (''youtube'', ''https://www.youtube.com/@japanviaharis'')]"

text \<open>
  Exceptions are values. \<open>str_exn\<close> is Python's \<open>str(e)\<close>: the message, and for a
  \<open>KeyError\<close> the key between quotes.
\<close>

datatype exn = ValueError string | KeyError string | RuntimeError string | OtherError string

definition quote :: string where
  "quote = [CHR 0x27]"

definition dquote :: string where
  "dquote = [CHR 0x22]"

text \<open>The bullet U+2022 of the output templates.\<close>

definition bullet :: string where
  "bullet = [CHR 0xE2, CHR 0x80, CHR 0xA2]"

fun str_exn :: "exn \<Rightarrow> string" where
  "str_exn (ValueError m) = m"
| "str_exn (KeyError k) = quote @ k @ quote"
| "str_exn (RuntimeError m) = m"
| "str_exn (OtherError m) = m"

text \<open>\<open>table[key]\<close> on a dictionary raises \<open>KeyError\<close> for a missing key.\<close>

definition getitem :: "(string \<times> 'v) list \<Rightarrow> string \<Rightarrow> exn + 'v" where
  "getitem table key = (case map_of table key of None \<Rightarrow> Inl (KeyError key)
                                                | Some v \<Rightarrow> Inr v)"

datatype text_content = TextContent (content_type: string) (content_text: string)

datatype call_tool_result = CallToolResult (content: "text_content list")

section \<open>Server: content extraction\<close>

text \<open>
  Fetching and HTML parsing are library services. What \<open>_fetch_and_parse_content\<close> sees
  of them is a parameter of the model: for a URL, either the exception that
  \<open>client.get\<close>, \<open>raise_for_status\<close> or the parser raised (with its \<open>str\<close>), or the parsed
  document. Of a document the routine uses two things: for a CSS selector the list of
  \<open>element.get_text(strip=True)\<close> over \<open>soup.select(selector)\<close>, one text per matched
  element in document order, and \<open>soup.get_text(separator='\n', strip=True)\<close>.
\<close>

record document =
  select_texts :: "string \<Rightarrow> string list"
  get_text :: string

datatype fetched = Failed string | Page document

type_synonym web = "string \<Rightarrow> fetched"

definition selectors :: "string list" where
  "selectors = [''div[data-dtype='' @ dquote @ ''d'' @ dquote @ '']'', ''.zfr3Q'', ''.uGdb3'',
                ''p'', ''h1'', ''h2'', ''h3'', ''li'']"

text \<open>
  The loop over the selectors: the first selector with a matched element ends the loop
  (\<open>break\<close>), whatever texts it kept.
\<close>

fun collect_parts :: "document \<Rightarrow> string list \<Rightarrow> string list" where
  "collect_parts doc [] = []"
| "collect_parts doc (selector # rest) =
     (let elements = select_texts doc selector
      in if elements \<noteq> []
         then filter (\<lambda>text. truthy text \<and> length text > 10) elements
         else collect_parts doc rest)"

definition parse_content :: "document \<Rightarrow> string" where
  "parse_content doc =
     (let content_parts = collect_parts doc selectors
      in if content_parts \<noteq> []
         then py_join ''\<newline>\<newline>'' (take 20 content_parts)
         else take 2000 (get_text doc))"

definition fetch_and_parse_content :: "web \<Rightarrow> string \<Rightarrow> string" where
  "fetch_and_parse_content w url =
     (case w url of
        Failed e \<Rightarrow> ''Unable to fetch content from '' @ url @ ''. Error: '' @ e
      | Page doc \<Rightarrow> parse_content doc)"

text \<open>The matched elements the loop stopped at: those of the first selector that has any.\<close>

fun winning_elements :: "document \<Rightarrow> string list \<Rightarrow> string list" where
  "winning_elements doc [] = []"
| "winning_elements doc (selector # rest) =
     (if select_texts doc selector \<noteq> [] then select_texts doc selector
      else winning_elements doc rest)"

section \<open>Server: tools\<close>

definition text_result :: "string \<Rightarrow> call_tool_result" where
  "text_result s = CallToolResult [TextContent ''text'' s]"

definition section_tool :: "web \<Rightarrow> string \<Rightarrow> string \<Rightarrow> exn + call_tool_result" where
  "section_tool w key heading =
     (case getitem profile_urls key of
        Inl e \<Rightarrow> Inl e
      | Inr url \<Rightarrow>
          Inr (text_result (heading @ '':\<newline>\<newline>'' @ fetch_and_parse_content w url @
                            ''\<newline>\<newline>Source: '' @ url)))"

definition get_profile_overview :: "web \<Rightarrow> exn + call_tool_result" where
  "get_profile_overview w = section_tool w ''overview'' ''Profile Overview''"

definition get_experience :: "web \<Rightarrow> exn + call_tool_result" where
  "get_experience w = section_tool w ''experience'' ''Work Experience''"

definition get_publications :: "web \<Rightarrow> exn + call_tool_result" where
  "get_publications w = section_tool w ''publications'' ''Publications and Conferences''"

definition get_career_timeline :: "web \<Rightarrow> exn + call_tool_result" where
  "get_career_timeline w = section_tool w ''career_timeline'' ''Career Timeline''"

definition get_social_links :: "string \<Rightarrow> call_tool_result" where
  "get_social_links platform =
     text_result
       (if platform = ''all''
        then foldl (\<lambda>social_info (platform_name, url).
                      social_info @ bullet @ '' '' @ py_title platform_name @ '': '' @ url @
                      ''\<newline>'')
               ''Social Media Profiles:\<newline>\<newline>'' social_urls
        else (case map_of social_urls platform of
                Some url \<Rightarrow> py_title platform @ '': '' @ url
              | None \<Rightarrow> ''Platform '' @ quote @ platform @ quote @
                         '' not found. Available platforms: '' @
                         py_join '', '' (map fst social_urls)))"

record search_result =
  result_section :: string
  result_url :: string
  result_matches :: "string list"

text \<open>One round of the loop of \<open>_search_profile_content\<close> over the profile pages.\<close>

definition relevant_paragraphs :: "string \<Rightarrow> string \<Rightarrow> string list" where
  "relevant_paragraphs search_query page =
     filter (\<lambda>p. py_in search_query (py_lower p) \<and> length (py_strip p) > 20)
       (py_split page ''\<newline>\<newline>'')"

definition search_section :: "web \<Rightarrow> string \<Rightarrow> string \<times> string \<Rightarrow> search_result list" where
  "search_section w search_query entry =
     (case entry of (section_name, url) \<Rightarrow>
        (let content = fetch_and_parse_content w url
         in if py_in search_query (py_lower content)
            then (let relevant = relevant_paragraphs search_query content
                  in if relevant \<noteq> []
                     then [\<lparr>result_section = py_title section_name, result_url = url,
                            result_matches = take 3 relevant\<rparr>]
                     else [])
            else []))"

definition search_results :: "web \<Rightarrow> string \<Rightarrow> search_result list" where
  "search_results w query =
     foldl (\<lambda>results entry. results @ search_section w (py_lower query) entry) []
       profile_urls"

definition format_result :: "search_result \<Rightarrow> string" where
  "format_result result =
     ''**'' @ result_section result @ '':**\<newline>'' @
     foldl (\<lambda>s match. s @ bullet @ '' '' @ take 200 match @ ''...\<newline>'') []
       (result_matches result) @
     ''Source: '' @ result_url result @ ''\<newline>\<newline>''"

definition no_results :: "string \<Rightarrow> string" where
  "no_results query =
     ''No results found for '' @ quote @ query @ quote @ '' in the profile content.''"

definition search_profile_content :: "web \<Rightarrow> string \<Rightarrow> call_tool_result" where
  "search_profile_content w query =
     (let results = search_results w query
      in text_result
           (if results \<noteq> []
            then foldl (\<lambda>s result. s @ format_result result)
                   (''Search results for '' @ quote @ query @ quote @ '':\<newline>\<newline>'') results
            else no_results query))"



section \<open>Server: catalog and dispatch\<close>

text \<open>
  \<open>handle_list_tools\<close>: name, description, the parameters of the input schema and the
  required ones.
\<close>

record tool =
  tool_name :: string
  tool_description :: string
  tool_properties :: "string list"
  tool_required :: "string list"

definition handle_list_tools :: "tool list" where
  "handle_list_tools =
     [\<lparr>tool_name = ''get_profile_overview'',
       tool_description = ''Fetch Haris Gulzar'' @ quote @
                     ''s professional overview and background information'',
       tool_properties = [], tool_required = []\<rparr>,
      \<lparr>tool_name = ''get_experience'',
       tool_description = ''Fetch detailed work experience and professional history'',
       tool_properties = [], tool_required = []\<rparr>,
      \<lparr>tool_name = ''get_publications'',
       tool_description = ''Fetch scientific publications and conference presentations'',
       tool_properties = [], tool_required = []\<rparr>,
      \<lparr>tool_name = ''get_career_timeline'',
       tool_description = ''Fetch career timeline and professional milestones'',
       tool_properties = [], tool_required = []\<rparr>,
      \<lparr>tool_name = ''get_social_links'',
       tool_description = ''Get social media profiles and links'',
       tool_properties = [''platform''], tool_required = []\<rparr>,
      \<lparr>tool_name = ''search_profile_content'',
       tool_description = ''Search across all profile content for specific information'',
       tool_properties = [''query''], tool_required = [''query'']\<rparr>]"

text \<open>
  The arguments of an invocation: absent (\<open>None\<close>) or a dictionary. The schema gives both
  parameters the type string, and the model keeps string values.
\<close>

type_synonym arguments = "(string \<times> string) list"

text \<open>\<open>arguments.get(key, default) if arguments else default\<close>\<close>

definition get_or :: "arguments option \<Rightarrow> string \<Rightarrow> string \<Rightarrow> string" where
  "get_or arguments key dflt =
     (case arguments of
        None \<Rightarrow> dflt
      | Some d \<Rightarrow> (if d = [] then dflt
                   else (case map_of d key of None \<Rightarrow> dflt | Some v \<Rightarrow> v)))"

text \<open>
  The body of the \<open>try\<close> of \<open>handle_call_tool\<close>: \<open>Inl\<close> is a raised exception. The
  test \<open>not arguments or "query" not in arguments\<close> holds of absent arguments, of an
  empty dictionary and of one without the key.
\<close>

definition call_tool_body :: "web \<Rightarrow> string \<Rightarrow> arguments option \<Rightarrow> exn + call_tool_result" where
  "call_tool_body w name arguments =
     (if name = ''get_profile_overview'' then get_profile_overview w
      else if name = ''get_experience'' then get_experience w
      else if name = ''get_publications'' then get_publications w
      else if name = ''get_career_timeline'' then get_career_timeline w
      else if name = ''get_social_links''
        then Inr (get_social_links (get_or arguments ''platform'' ''all''))
      else if name = ''search_profile_content''
        then (case arguments of
                None \<Rightarrow> Inl (ValueError ''Query parameter is required for search'')
              | Some d \<Rightarrow>
                  (if d = [] \<or> map_of d ''query'' = None
                   then Inl (ValueError ''Query parameter is required for search'')
                   else (case getitem d ''query'' of
                           Inl e \<Rightarrow> Inl e
                         | Inr query \<Rightarrow> Inr (search_profile_content w query))))
      else Inl (ValueError (''Unknown tool: '' @ name)))"

text \<open>\<open>handle_call_tool\<close>: every exception of the body becomes a text result.\<close>

definition handle_call_tool :: "web \<Rightarrow> string \<Rightarrow> arguments option \<Rightarrow> call_tool_result" where
  "handle_call_tool w name arguments =
     (case call_tool_body w name arguments of
        Inl e \<Rightarrow> text_result (''Error: '' @ str_exn e)
      | Inr result \<Rightarrow> result)"

section \<open>Client: calling tools\<close>

text \<open>
  The channel to the server is a collaborator. The model keeps what matters of it: the
  requests the client has sent on it, in order, and, as a parameter \<open>rpc\<close>, what
  \<open>session.call_tool(name, arguments)\<close> gives back: the server's result or a raised
  exception.
\<close>

datatype session = Session (sent: "(string \<times> arguments) list")

type_synonym rpc = "string \<Rightarrow> arguments \<Rightarrow> exn + call_tool_result"

text \<open>
  \<open>call_tool\<close>: with no session it raises; \<open>arguments or {}\<close> sends the empty dictionary
  for absent arguments; an exception of the call is caught and returned as text.
\<close>

definition call_tool ::
    "rpc \<Rightarrow> session option \<Rightarrow> string \<Rightarrow> arguments option \<Rightarrow> session option \<times> (exn + string)" where
  "call_tool remote s tool arguments =
     (case s of
        None \<Rightarrow> (s, Inl (RuntimeError ''Not connected to server''))
      | Some (Session log) \<Rightarrow>
          (let d = (case arguments of None \<Rightarrow> [] | Some a \<Rightarrow> a)
           in (Some (Session (log @ [(tool, d)])),
               Inr (case remote tool d of
                      Inl e \<Rightarrow> ''Error: '' @ str_exn e
                    | Inr result \<Rightarrow> py_join ''\<newline>'' (map content_text (content result))))))"

text \<open>
  \<open>get_available_tools\<close>; \<open>listing\<close> is what \<open>session.list_tools()\<close> answers.
\<close>

definition get_available_tools :: "tool list \<Rightarrow> session option \<Rightarrow> exn + (string \<times> string) list" where
  "get_available_tools listing s =
     (case s of
        None \<Rightarrow> Inl (RuntimeError ''Not connected to server'')
      | Some _ \<Rightarrow> Inr (map (\<lambda>t. (tool_name t, tool_description t)) listing))"

section \<open>Client: answer generation\<close>

text \<open>
  The two model backends are network calls: what \<open>_query_ollama\<close> and
  \<open>_query_huggingface\<close> give for a query and a context is a parameter, either a raised
  exception or the returned \<open>Optional[str]\<close>.
\<close>

type_synonym backend = "string \<Rightarrow> string \<Rightarrow> exn + string option"

definition format_basic_response :: "string \<Rightarrow> string \<Rightarrow> string" where
  "format_basic_response query context_data =
     ''Based on the available information about Haris Gulzar:\<newline>\<newline>'' @ context_data @
     ''\<newline>\<newline>Your question: '' @ dquote @ query @ dquote @
     ''\<newline>\<newline>I'' @ quote @ ''ve provided the relevant information above. '' @
     ''For more detailed analysis, please consider setting up a local LLM '' @
     ''(like Ollama) or using a cloud LLM service.''"

text \<open>
  \<open>if response: return response\<close> inside \<open>try\<close>: a backend's answer is used when the
  call returned a non-empty string; \<open>None\<close>, the empty string and an exception pass on.
\<close>

definition usable :: "exn + string option \<Rightarrow> string option" where
  "usable r = (case r of
                 Inl e \<Rightarrow> None
               | Inr None \<Rightarrow> None
               | Inr (Some response) \<Rightarrow> (if truthy response then Some response else None))"

definition query_llm_with_context ::
    "backend \<Rightarrow> backend \<Rightarrow> string \<Rightarrow> string \<Rightarrow> exn + string" where
  "query_llm_with_context query_ollama query_huggingface user_query context_data =
     (case usable (query_ollama user_query context_data) of
        Some ollama_response \<Rightarrow> Inr ollama_response
      | None \<Rightarrow>
          (case usable (query_huggingface user_query context_data) of
             Some hf_response \<Rightarrow> Inr hf_response
           | None \<Rightarrow> Inr (format_basic_response user_query context_data)))"

section \<open>Client: the interactive loop\<close>

text \<open>
  One round of the \<open>while True\<close> of \<open>interactive_chat\<close> for a line that \<open>input\<close> returned
  (an interrupt or the end of the input is not a line): the lines the round prints, the
  session afterwards, and whether the loop goes on.
\<close>

datatype control = Break | Continue

record round =
  printed :: "string list"
  after :: "session option"
  control :: control

text \<open>
  The loop over the relevant tools. An exception of \<open>call_tool\<close> leaves the loop; the
  lines printed before it stay printed.
\<close>

fun gather_context ::
    "rpc \<Rightarrow> session option \<Rightarrow> string list \<Rightarrow> string list \<times> session option \<times> (exn + string list)" where
  "gather_context remote s [] = ([], s, Inr [])"
| "gather_context remote s (tool # rest) =
     (let line = ''Fetching information from '' @ tool @ ''...''
      in case call_tool remote s tool None of
           (s', Inl e) \<Rightarrow> ([line], s', Inl e)
         | (s', Inr tool_result) \<Rightarrow>
             (case gather_context remote s' rest of
                (lines, s'', Inl e) \<Rightarrow> (line # lines, s'', Inl e)
              | (lines, s'', Inr context_parts) \<Rightarrow>
                  (line # lines, s'',
                   Inr ((''=== '' @ tool @ '' ===\<newline>'' @ tool_result) # context_parts))))"

text \<open>The part of the round after the commands: the line is a question.\<close>

definition answer_query ::
    "rpc \<Rightarrow> backend \<Rightarrow> backend \<Rightarrow> session option \<Rightarrow> string \<Rightarrow> round" where
  "answer_query remote query_ollama query_huggingface s user_input =
     (let relevant_tools = determine_relevant_tools user_input
      in case gather_context remote s relevant_tools of
           (lines, s', Inl e) \<Rightarrow>
             \<lparr>printed = lines @ [''Error: '' @ str_exn e], after = s', control = Continue\<rparr>
         | (lines, s', Inr context_parts) \<Rightarrow>
             (case query_llm_with_context query_ollama query_huggingface user_input
                     (py_join ''\<newline>\<newline>'' context_parts) of
                Inl e \<Rightarrow>
                  \<lparr>printed = lines @ [''Generating response...'', ''Error: '' @ str_exn e],
                   after = s', control = Continue\<rparr>
              | Inr response \<Rightarrow>
                  \<lparr>printed = lines @ [''Generating response...'',
                                       ''Assistant: '' @ response @ ''\<newline>''],
                   after = s', control = Continue\<rparr>))"

definition help_lines :: "string list" where
  "help_lines = [''Available commands:'', ''- Ask any question about Haris Gulzar'',
                 ''- /tools : List available MCP tools'', ''- /help : Show this help'',
                 ''- /quit : Exit'']"

definition chat_round ::
    "rpc \<Rightarrow> tool list \<Rightarrow> backend \<Rightarrow> backend \<Rightarrow> session option \<Rightarrow> string \<Rightarrow> round" where
  "chat_round remote listing query_ollama query_huggingface s typed =
     (let user_input = py_strip typed
      in if py_lower user_input \<in> set [''/quit'', ''/exit'', ''quit'', ''exit'']
           then \<lparr>printed = [], after = s, control = Break\<rparr>
         else if py_lower user_input = ''/help''
           then \<lparr>printed = help_lines, after = s, control = Continue\<rparr>
         else if py_lower user_input = ''/tools''
           then (case get_available_tools listing s of
                   Inl e \<Rightarrow> \<lparr>printed = [''Error: '' @ str_exn e], after = s, control = Continue\<rparr>
                 | Inr tools \<Rightarrow>
                     \<lparr>printed = ''Available tools:'' #
                                  map (\<lambda>(n, d). ''- '' @ n @ '': '' @ d) tools,
                      after = s, control = Continue\<rparr>)
         else if \<not> truthy user_input
           then \<lparr>printed = [], after = s, control = Continue\<rparr>
         else answer_query remote query_ollama query_huggingface s user_input)"

text \<open>The channel that delivers every request to the server and its result back.\<close>

definition served_by :: "web \<Rightarrow> rpc" where
  "served_by w = (\<lambda>tool d. Inr (handle_call_tool w tool (Some d)))"

section \<open>The specification's wording\<close>

text \<open>
  The residual as the specification words it: the search-intent keywords \<open>search\<close> and
  \<open>find\<close> stripped from the original query, and the whitespace trimmed.
\<close>

definition claimed_residual :: "string \<Rightarrow> string" where
  "claimed_residual query = py_strip (py_replace (py_replace query ''search'' '''') ''find'' '''')"

section \<open>Answer generation always answers\<close>

lemma format_basic_response_nonempty: "format_basic_response q c \<noteq> []"
  by (simp add: format_basic_response_def)

lemma usable_truthy: "usable r = Some a \<Longrightarrow> a \<noteq> []"
  by (auto simp: usable_def truthy_def split: sum.splits option.splits if_splits)

text \<open>
  C1. Whatever the two backends do for a query and a context (raise, return \<open>None\<close>,
  return a string), \<open>query_llm_with_context\<close> returns an answer, and the answer is not
  empty. When neither backend gives a non-empty answer, the result is the formatted
  fallback, which is a fixed text around the context and the query, in this order.
\<close>

theorem query_llm_with_context_answers:
  "(\<exists>answer. query_llm_with_context query_ollama query_huggingface q c = Inr answer \<and> answer \<noteq> []) \<and>
   (usable (query_ollama q c) = None \<and> usable (query_huggingface q c) = None \<longrightarrow>
      query_llm_with_context query_ollama query_huggingface q c = Inr (format_basic_response q c)) \<and>
   (\<exists>pre mid post. \<forall>q' c'. format_basic_response q' c' = pre @ c' @ mid @ q' @ post)"
proof (intro conjI)
  show "\<exists>answer. query_llm_with_context query_ollama query_huggingface q c = Inr answer \<and> answer \<noteq> []"
    by (auto simp: query_llm_with_context_def format_basic_response_nonempty
             dest: usable_truthy split: option.splits)
  show "usable (query_ollama q c) = None \<and> usable (query_huggingface q c) = None \<longrightarrow>
      query_llm_with_context query_ollama query_huggingface q c = Inr (format_basic_response q c)"
    by (simp add: query_llm_with_context_def)
  show "\<exists>pre mid post. \<forall>q' c'. format_basic_response q' c' = pre @ c' @ mid @ q' @ post"
    by (rule exI [of _ "''Based on the available information about Haris Gulzar:\<newline>\<newline>''"],
        rule exI [of _ "''\<newline>\<newline>Your question: '' @ dquote"],
        rule exI [of _ "dquote @ ''\<newline>\<newline>I'' @ quote @
           ''ve provided the relevant information above. '' @
           ''For more detailed analysis, please consider setting up a local LLM '' @
           ''(like Ollama) or using a cloud LLM service.''"])
       (simp add: format_basic_response_def)
qed

text \<open>Both backends down: the first refuses the connection, the second returns \<open>None\<close>.\<close>

theorem query_llm_with_context_answers_witness:
  "usable ((\<lambda>q c. Inl (OtherError ''connection refused'')) ''find information about internships'' ''ctx'') = None \<and>
   usable ((\<lambda>q c. Inr None) ''find information about internships'' ''ctx'') = None \<and>
   query_llm_with_context (\<lambda>q c. Inl (OtherError ''connection refused'')) (\<lambda>q c. Inr None)
      ''find information about internships'' ''ctx''
     = Inr (format_basic_response ''find information about internships'' ''ctx'')"
proof -
  have h: "usable ((\<lambda>q c. Inl (OtherError ''connection refused'')) ''find information about internships'' ''ctx'') = None \<and>
   usable ((\<lambda>q c. Inr None) ''find information about internships'' ''ctx'') = None"
    by (simp add: usable_def)
  from query_llm_with_context_answers
    [where query_ollama = "\<lambda>q c. Inl (OtherError ''connection refused'')"
       and query_huggingface = "\<lambda>q c. Inr None"
       and q = "''find information about internships''" and c = "''ctx''"]
  have "query_llm_with_context (\<lambda>q c. Inl (OtherError ''connection refused'')) (\<lambda>q c. Inr None)
      ''find information about internships'' ''ctx''
     = Inr (format_basic_response ''find information about internships'' ''ctx'')"
    using h by (elim conjE impE) (rule conjI)
  with h show ?thesis by (intro conjI) (elim conjE, assumption)+
qed

section \<open>Relevance ranking\<close>

lemma keyword_tools_notin: "''search_profile_content'' \<notin> set (keyword_tools ql)"
  by (auto simp: keyword_tools_def tool_keywords_def)

text \<open>
  C2. For every query the ranking returns between one and three tools. When no keyword
  of the table is in the lowercased query, the candidates are the fixed pair overview,
  experience; the search tool stands before the pair when the query is a search query
  with a non-empty search argument.
\<close>

theorem determine_relevant_tools_bounds:
  "1 \<le> length (determine_relevant_tools q) \<and> length (determine_relevant_tools q) \<le> 3 \<and>
   (keyword_tools (py_lower q) = [] \<longrightarrow>
      determine_relevant_tools q =
        (if any_in search_words (py_lower q) \<and> search_argument q \<noteq> []
         then [''search_profile_content'', ''get_profile_overview'', ''get_experience'']
         else [''get_profile_overview'', ''get_experience'']))"
proof -
  have "keyword_tools (py_lower q) \<noteq> [] \<Longrightarrow> 1 \<le> length (keyword_tools (py_lower q))"
    by (cases "keyword_tools (py_lower q)") simp_all
  then show ?thesis
    by (auto simp: determine_relevant_tools_def Let_def truthy_def)
qed

theorem determine_relevant_tools_bounds_witness:
  "keyword_tools (py_lower ''hello'') = [] \<and>
   determine_relevant_tools ''hello'' = [''get_profile_overview'', ''get_experience'']"
proof -
  have h: "keyword_tools (py_lower ''hello'') = []"
    by code_simp
  have i: "\<not> any_in search_words (py_lower ''hello'')"
    by code_simp
  from determine_relevant_tools_bounds [of "''hello''"] h i show ?thesis
    by simp
qed

text \<open>
  C3, as stated, fails in both halves. The query \<open>search\<close> contains a search-intent
  keyword and nothing is left of it once the keywords are stripped, yet the search tool
  is selected: the code strips \<open>search for\<close>, \<open>find\<close> and \<open>look for\<close>, not \<open>search\<close>.
  And of the query \<open>look for find\<close> the words \<open>look for\<close> are left once the keywords are
  stripped, yet the search tool is not selected.
\<close>

theorem search_added_for_bare_keyword:
  "py_in ''search'' ''search'' \<and> claimed_residual ''search'' = [] \<and>
   determine_relevant_tools ''search'' =
     [''search_profile_content'', ''get_profile_overview'', ''get_experience''] \<and>
   py_in ''find'' ''look for find'' \<and> claimed_residual ''look for find'' = ''look for'' \<and>
   determine_relevant_tools ''look for find'' = [''get_profile_overview'', ''get_experience'']"
  by code_simp

lemma any_in_search_words:
  "py_in ''search'' ql \<or> py_in ''find'' ql \<Longrightarrow> any_in search_words ql"
  by (auto simp: any_in_def search_words_def)

text \<open>
  C3, amended. For every query whose lowercased form contains \<open>search\<close> or \<open>find\<close>: the
  search tool is first in the selection when the search argument the code derives (the
  query without \<open>search for\<close>, \<open>find\<close> and \<open>look for\<close>, trimmed) is not empty, and it
  is not selected when that argument is empty.
\<close>

theorem search_first_iff_argument:
  "py_in ''search'' (py_lower q) \<or> py_in ''find'' (py_lower q) \<Longrightarrow>
   (search_argument q \<noteq> [] \<longrightarrow>
      (\<exists>rest. determine_relevant_tools q = ''search_profile_content'' # rest)) \<and>
   (search_argument q = [] \<longrightarrow>
      ''search_profile_content'' \<notin> set (determine_relevant_tools q))"
proof -
  assume "py_in ''search'' (py_lower q) \<or> py_in ''find'' (py_lower q)"
  then have a: "any_in search_words (py_lower q)"
    by (rule any_in_search_words)
  have n: "''search_profile_content'' \<notin> set (take 3 (keyword_tools (py_lower q)))"
    using keyword_tools_notin [of "py_lower q"] by (auto dest: in_set_takeD)
  show ?thesis
    using a n by (auto simp: determine_relevant_tools_def Let_def truthy_def)
qed

theorem search_first_iff_argument_witness:
  "py_in ''find'' (py_lower ''find information about internships'') \<and>
   search_argument ''find information about internships'' \<noteq> [] \<and>
   (\<exists>rest. determine_relevant_tools ''find information about internships'' =
      ''search_profile_content'' # rest) \<and>
   py_in ''find'' (py_lower ''find'') \<and> search_argument ''find'' = [] \<and>
   ''search_profile_content'' \<notin> set (determine_relevant_tools ''find'')"
proof -
  have p1: "py_in ''find'' (py_lower ''find information about internships'')"
    by code_simp
  have a1: "search_argument ''find information about internships'' \<noteq> []"
    by code_simp
  have p2: "py_in ''find'' (py_lower ''find'')"
    by code_simp
  have a2: "search_argument ''find'' = []"
    by code_simp
  from search_first_iff_argument [OF disjI2 [OF p1]] a1
  have c1: "\<exists>rest. determine_relevant_tools ''find information about internships'' =
      ''search_profile_content'' # rest"
    by blast
  from search_first_iff_argument [OF disjI2 [OF p2]] a2
  have c2: "''search_profile_content'' \<notin> set (determine_relevant_tools ''find'')"
    by blast
  from p1 a1 c1 p2 a2 c2 show ?thesis
    by (intro conjI)
qed

section \<open>The loop sends no arguments\<close>

lemma call_tool_connected:
  "call_tool remote (Some (Session log)) tool None =
     (Some (Session (log @ [(tool, [])])),
      Inr (case remote tool [] of
             Inl e \<Rightarrow> ''Error: '' @ str_exn e
           | Inr result \<Rightarrow> py_join ''\<newline>'' (map content_text (content result))))"
  by (simp add: call_tool_def)

lemma gather_context_connected:
  "gather_context remote (Some (Session log)) tools =
     (map (\<lambda>tool. ''Fetching information from '' @ tool @ ''...'') tools,
      Some (Session (log @ map (\<lambda>tool. (tool, [])) tools)),
      Inr (map (\<lambda>tool. ''=== '' @ tool @ '' ===\<newline>'' @
                  (case remote tool [] of
                     Inl e \<Rightarrow> ''Error: '' @ str_exn e
                   | Inr result \<Rightarrow> py_join ''\<newline>'' (map content_text (content result))))
             tools))"
proof (induction tools arbitrary: log)
  case Nil
  show ?case by simp
next
  case (Cons tool rest)
  show ?case
    by (simp add: call_tool_connected Cons.IH [of "log @ [(tool, [])]"] Let_def)
qed

lemma search_without_query:
  "handle_call_tool w ''search_profile_content'' (Some []) =
     text_result ''Error: Query parameter is required for search''"
  by (simp add: handle_call_tool_def call_tool_body_def)

lemma after_answer_query:
  "after (answer_query remote ol hf (Some (Session log)) q) =
     Some (Session (log @ map (\<lambda>tool. (tool, [])) (determine_relevant_tools q)))"
  by (simp add: answer_query_def Let_def gather_context_connected split: sum.splits)

text \<open>
  C4. Every request a round of the interactive loop sends carries the empty dictionary:
  the requests of a question are its relevant tools, each with no arguments. So, with
  the server on the channel, the context entry of \<open>search_profile_content\<close> is always the
  server's error text that the query parameter is required.
\<close>

theorem interactive_loop_sends_no_arguments:
  "(\<exists>tools. after (chat_round remote listing ol hf (Some (Session log)) typed) =
             Some (Session (log @ map (\<lambda>tool. (tool, [])) tools))) \<and>
   after (answer_query remote ol hf (Some (Session log)) q) =
     Some (Session (log @ map (\<lambda>tool. (tool, [])) (determine_relevant_tools q))) \<and>
   gather_context (served_by w) (Some (Session log)) tools =
     (map (\<lambda>tool. ''Fetching information from '' @ tool @ ''...'') tools,
      Some (Session (log @ map (\<lambda>tool. (tool, [])) tools)),
      Inr (map (\<lambda>tool. ''=== '' @ tool @ '' ===\<newline>'' @
                  (if tool = ''search_profile_content''
                   then ''Error: Query parameter is required for search''
                   else py_join ''\<newline>''
                          (map content_text (content (handle_call_tool w tool (Some []))))))
             tools)) \<and>
   handle_call_tool w ''search_profile_content'' (Some []) =
     text_result ''Error: Query parameter is required for search''"
proof (intro conjI)
  show "\<exists>tools. after (chat_round remote listing ol hf (Some (Session log)) typed) =
             Some (Session (log @ map (\<lambda>tool. (tool, [])) tools))"
  proof (cases "chat_round remote listing ol hf (Some (Session log)) typed =
                answer_query remote ol hf (Some (Session log)) (py_strip typed)")
    case True
    then show ?thesis
      using after_answer_query by auto
  next
    case False
    then have "after (chat_round remote listing ol hf (Some (Session log)) typed) =
                 Some (Session log)"
      by (auto simp: chat_round_def Let_def get_available_tools_def split: if_splits)
    then have "after (chat_round remote listing ol hf (Some (Session log)) typed) =
                 Some (Session (log @ map (\<lambda>tool. (tool, [])) []))"
      by simp
    then show ?thesis
      by (rule exI)
  qed
  show "after (answer_query remote ol hf (Some (Session log)) q) =
     Some (Session (log @ map (\<lambda>tool. (tool, [])) (determine_relevant_tools q)))"
    by (rule after_answer_query)
  show "handle_call_tool w ''search_profile_content'' (Some []) =
     text_result ''Error: Query parameter is required for search''"
    by (rule search_without_query)
  show "gather_context (served_by w) (Some (Session log)) tools =
     (map (\<lambda>tool. ''Fetching information from '' @ tool @ ''...'') tools,
      Some (Session (log @ map (\<lambda>tool. (tool, [])) tools)),
      Inr (map (\<lambda>tool. ''=== '' @ tool @ '' ===\<newline>'' @
                  (if tool = ''search_profile_content''
                   then ''Error: Query parameter is required for search''
                   else py_join ''\<newline>''
                          (map content_text (content (handle_call_tool w tool (Some []))))))
             tools))"
    by (simp add: gather_context_connected served_by_def search_without_query text_result_def)
qed

section \<open>Search\<close>













section \<open>Content extraction\<close>

lemma collect_parts_filter:
  "collect_parts doc sels = filter (\<lambda>t. 10 < length t) (winning_elements doc sels)"
proof (induction sels)
  case Nil
  show ?case by simp
next
  case (Cons selector rest)
  have "(\<lambda>t. truthy t \<and> 10 < length t) = (\<lambda>t::string. 10 < length t)"
    by (auto simp: truthy_def)
  with Cons show ?case
    by (simp add: Let_def)
qed

lemma py_join_nonempty: "xs \<noteq> [] \<Longrightarrow> hd xs \<noteq> [] \<Longrightarrow> py_join sep xs \<noteq> []"
  by (induction sep xs rule: py_join.induct) simp_all

lemma collect_parts_long: "t \<in> set (collect_parts doc sels) \<Longrightarrow> 10 < length t"
  by (simp add: collect_parts_filter)

lemma joined_parts_nonempty:
  assumes "collect_parts doc sels \<noteq> []"
  shows "py_join sep (take 20 (collect_parts doc sels)) \<noteq> []"
proof -
  obtain t ts where c: "collect_parts doc sels = t # ts"
    using assms by (cases "collect_parts doc sels") auto
  then have "t \<in> set (collect_parts doc sels)" by simp
  then have "10 < length t" by (rule collect_parts_long)
  then have "t \<noteq> []" by auto
  then show ?thesis
    using c by (intro py_join_nonempty) simp_all
qed

text \<open>
  C6, as stated, fails: a page that is fetched and has no text at all gives the empty
  string.
\<close>

theorem empty_document_gives_empty_text:
  "fetch_and_parse_content (\<lambda>u. Page \<lparr>select_texts = (\<lambda>selector. []), get_text = ''''\<rparr>)
     ''https://sites.google.com/view/haris-gulzar/home'' = ''''"
  by (simp add: fetch_and_parse_content_def parse_content_def selectors_def)

text \<open>
  C6, amended. When a fragment survives, the result is the first at most 20 surviving
  fragments joined by a blank line, and it is not empty. Otherwise it is the first at
  most 2000 characters of the text of the document. The result is empty exactly when no
  fragment survives and the document has no text.
\<close>

theorem parse_content_bounds:
  "(collect_parts doc selectors \<noteq> [] \<longrightarrow>
      parse_content doc = py_join ''\<newline>\<newline>'' (take 20 (collect_parts doc selectors)) \<and>
      parse_content doc \<noteq> []) \<and>
   length (take 20 (collect_parts doc selectors)) \<le> 20 \<and>
   (collect_parts doc selectors = [] \<longrightarrow>
      parse_content doc = take 2000 (get_text doc) \<and> length (parse_content doc) \<le> 2000) \<and>
   (parse_content doc = [] \<longleftrightarrow> collect_parts doc selectors = [] \<and> get_text doc = []) \<and>
   (w u = Page doc \<longrightarrow> fetch_and_parse_content w u = parse_content doc)"
proof (intro conjI impI)
  assume a: "collect_parts doc selectors \<noteq> []"
  then show "parse_content doc = py_join ''\<newline>\<newline>'' (take 20 (collect_parts doc selectors))"
    by (simp add: parse_content_def Let_def)
  with a show "parse_content doc \<noteq> []"
    by (simp add: joined_parts_nonempty)
next
  show "length (take 20 (collect_parts doc selectors)) \<le> 20"
    by simp
next
  assume a: "collect_parts doc selectors = []"
  then show "parse_content doc = take 2000 (get_text doc)"
    by (simp add: parse_content_def Let_def)
  then show "length (parse_content doc) \<le> 2000"
    by simp
next
  show "parse_content doc = [] \<longleftrightarrow> collect_parts doc selectors = [] \<and> get_text doc = []"
  proof (cases "collect_parts doc selectors = []")
    case True
    then show ?thesis
      by (simp add: parse_content_def Let_def)
  next
    case False
    then show ?thesis
      using joined_parts_nonempty [OF False] by (simp add: parse_content_def Let_def)
  qed
next
  assume "w u = Page doc"
  then show "fetch_and_parse_content w u = parse_content doc"
    by (simp add: fetch_and_parse_content_def)
qed

text \<open>
  A page whose first matching selector is \<open>h1\<close>, with one heading long enough, and a
  page where no selector matches.
\<close>

theorem parse_content_bounds_witness:
  "collect_parts
     \<lparr>select_texts = (\<lambda>selector. if selector = ''h1''
                                    then [''Home'', ''Conference papers 2023''] else []),
      get_text = ''Home\<newline>Conference papers 2023''\<rparr> selectors \<noteq> [] \<and>
   parse_content
     \<lparr>select_texts = (\<lambda>selector. if selector = ''h1''
                                    then [''Home'', ''Conference papers 2023''] else []),
      get_text = ''Home\<newline>Conference papers 2023''\<rparr> \<noteq> [] \<and>
   collect_parts \<lparr>select_texts = (\<lambda>selector. []), get_text = ''plain''\<rparr> selectors = [] \<and>
   parse_content \<lparr>select_texts = (\<lambda>selector. []), get_text = ''plain''\<rparr> =
     take 2000 (get_text \<lparr>select_texts = (\<lambda>selector. []), get_text = ''plain''\<rparr>) \<and>
   fetch_and_parse_content
     (\<lambda>u. Page \<lparr>select_texts = (\<lambda>selector. []), get_text = ''plain''\<rparr>) ''u'' =
     parse_content \<lparr>select_texts = (\<lambda>selector. []), get_text = ''plain''\<rparr>"
proof -
  have h1: "collect_parts
     \<lparr>select_texts = (\<lambda>selector. if selector = ''h1''
                                    then [''Home'', ''Conference papers 2023''] else []),
      get_text = ''Home\<newline>Conference papers 2023''\<rparr> selectors \<noteq> []"
    by (simp add: selectors_def dquote_def truthy_def)
  have h2: "collect_parts \<lparr>select_texts = (\<lambda>selector. []), get_text = ''plain''\<rparr> selectors = []"
    by (simp add: selectors_def)
  have h3: "(\<lambda>u. Page \<lparr>select_texts = (\<lambda>selector. []), get_text = ''plain''\<rparr>) ''u'' =
            Page \<lparr>select_texts = (\<lambda>selector. []), get_text = ''plain''\<rparr>"
    by simp
  from parse_content_bounds
    [of "\<lparr>select_texts = (\<lambda>selector. if selector = ''h1''
                                    then [''Home'', ''Conference papers 2023''] else []),
      get_text = ''Home\<newline>Conference papers 2023''\<rparr>"] h1
  have c1: "parse_content
     \<lparr>select_texts = (\<lambda>selector. if selector = ''h1''
                                    then [''Home'', ''Conference papers 2023''] else []),
      get_text = ''Home\<newline>Conference papers 2023''\<rparr> \<noteq> []"
    by blast
  note t = parse_content_bounds
    [of "\<lparr>select_texts = (\<lambda>selector. []), get_text = ''plain''\<rparr>"
        "\<lambda>u. Page \<lparr>select_texts = (\<lambda>selector. []), get_text = ''plain''\<rparr>" "''u''"]
  from t h2
  have c2: "parse_content \<lparr>select_texts = (\<lambda>selector. []), get_text = ''plain''\<rparr> =
     take 2000 (get_text \<lparr>select_texts = (\<lambda>selector. []), get_text = ''plain''\<rparr>)"
    by blast
  from t h3
  have c3: "fetch_and_parse_content
     (\<lambda>u. Page \<lparr>select_texts = (\<lambda>selector. []), get_text = ''plain''\<rparr>) ''u'' =
     parse_content \<lparr>select_texts = (\<lambda>selector. []), get_text = ''plain''\<rparr>"
    by blast
  from h1 c1 h2 c2 c3 show ?thesis
    by (intro conjI)
qed

lemma py_join_member:
  "t \<in> set xs \<Longrightarrow> \<exists>pre post. py_join sep xs = pre @ t @ post"
proof (induction sep xs rule: py_join.induct)
  case (1 sep)
  then show ?case by simp
next
  case (2 sep x)
  then have "py_join sep [x] = [] @ t @ []" by simp
  then show ?case by blast
next
  case (3 sep x y ys)
  show ?case
  proof (cases "t = x")
    case True
    then have "py_join sep (x # y # ys) = [] @ t @ (sep @ py_join sep (y # ys))" by simp
    then show ?thesis by blast
  next
    case False
    with "3.prems" have "t \<in> set (y # ys)" by simp
    from "3.IH" [OF this] obtain pre post where "py_join sep (y # ys) = pre @ t @ post"
      by blast
    then have "py_join sep (x # y # ys) = (x @ sep @ pre) @ t @ post" by simp
    then show ?thesis by blast
  qed
qed

text \<open>
  C7, as stated, fails: of the two paragraphs the winning selector matches, the one of
  exactly 10 characters is discarded, and the output, which is the other paragraph, does
  not contain it.
\<close>

theorem ten_character_fragment_dropped:
  "length ''0123456789'' = 10 \<and>
   ''0123456789'' \<in> set (winning_elements
      \<lparr>select_texts = (\<lambda>selector. if selector = ''p''
                           then [''0123456789'', ''A paragraph that is long enough''] else []),
       get_text = ''0123456789\<newline>A paragraph that is long enough''\<rparr> selectors) \<and>
   ''0123456789'' \<notin> set (collect_parts
      \<lparr>select_texts = (\<lambda>selector. if selector = ''p''
                           then [''0123456789'', ''A paragraph that is long enough''] else []),
       get_text = ''0123456789\<newline>A paragraph that is long enough''\<rparr> selectors) \<and>
   parse_content
      \<lparr>select_texts = (\<lambda>selector. if selector = ''p''
                           then [''0123456789'', ''A paragraph that is long enough''] else []),
       get_text = ''0123456789\<newline>A paragraph that is long enough''\<rparr> =
     ''A paragraph that is long enough'' \<and>
   \<not> py_in ''0123456789'' ''A paragraph that is long enough''"
  by (simp add: parse_content_def selectors_def dquote_def truthy_def)

text \<open>
  C7, amended. A fragment of the winning selector's elements survives exactly when it
  is longer than 10 characters. When a fragment survives, the output is the first 20
  survivors joined by a blank line, and each of these is part of the output. When none
  survives, the output is the first 2000 characters of the whole text of the document.
\<close>

theorem fragment_kept_iff_longer_than_ten:
  "collect_parts doc selectors = filter (\<lambda>t. 10 < length t) (winning_elements doc selectors) \<and>
   (t \<in> set (collect_parts doc selectors) \<longleftrightarrow>
      t \<in> set (winning_elements doc selectors) \<and> 10 < length t) \<and>
   (collect_parts doc selectors \<noteq> [] \<longrightarrow>
      parse_content doc = py_join ''\<newline>\<newline>'' (take 20 (collect_parts doc selectors))) \<and>
   (t \<in> set (take 20 (collect_parts doc selectors)) \<longrightarrow>
      (\<exists>pre post. parse_content doc = pre @ t @ post)) \<and>
   (collect_parts doc selectors = [] \<longrightarrow> parse_content doc = take 2000 (get_text doc))"
proof (intro conjI impI)
  show "collect_parts doc selectors = filter (\<lambda>t. 10 < length t) (winning_elements doc selectors)"
    by (rule collect_parts_filter)
  show "t \<in> set (collect_parts doc selectors) \<longleftrightarrow>
      t \<in> set (winning_elements doc selectors) \<and> 10 < length t"
    by (simp add: collect_parts_filter)
next
  assume "collect_parts doc selectors \<noteq> []"
  then show "parse_content doc = py_join ''\<newline>\<newline>'' (take 20 (collect_parts doc selectors))"
    by (simp add: parse_content_def Let_def)
next
  assume m: "t \<in> set (take 20 (collect_parts doc selectors))"
  then have "collect_parts doc selectors \<noteq> []"
    by auto
  then have "parse_content doc = py_join ''\<newline>\<newline>'' (take 20 (collect_parts doc selectors))"
    by (simp add: parse_content_def Let_def)
  with py_join_member [OF m, of "''\<newline>\<newline>''"]
  show "\<exists>pre post. parse_content doc = pre @ t @ post"
    by simp
next
  assume "collect_parts doc selectors = []"
  then show "parse_content doc = take 2000 (get_text doc)"
    by (simp add: parse_content_def Let_def)
qed

text \<open>
  Of the two headings of the first page, the one of four characters is dropped and the
  other is in the output; on the second page nothing survives.
\<close>

theorem fragment_kept_iff_longer_than_ten_witness:
  "collect_parts
     \<lparr>select_texts = (\<lambda>selector. if selector = ''h1''
                                    then [''Home'', ''Conference papers 2023''] else []),
      get_text = ''Home\<newline>Conference papers 2023''\<rparr> selectors \<noteq> [] \<and>
   parse_content
     \<lparr>select_texts = (\<lambda>selector. if selector = ''h1''
                                    then [''Home'', ''Conference papers 2023''] else []),
      get_text = ''Home\<newline>Conference papers 2023''\<rparr> =
   py_join ''\<newline>\<newline>'' (take 20 (collect_parts
     \<lparr>select_texts = (\<lambda>selector. if selector = ''h1''
                                    then [''Home'', ''Conference papers 2023''] else []),
      get_text = ''Home\<newline>Conference papers 2023''\<rparr> selectors)) \<and>
   ''Conference papers 2023'' \<in> set (take 20 (collect_parts
     \<lparr>select_texts = (\<lambda>selector. if selector = ''h1''
                                    then [''Home'', ''Conference papers 2023''] else []),
      get_text = ''Home\<newline>Conference papers 2023''\<rparr> selectors)) \<and>
   (\<exists>pre post. parse_content
     \<lparr>select_texts = (\<lambda>selector. if selector = ''h1''
                                    then [''Home'', ''Conference papers 2023''] else []),
      get_text = ''Home\<newline>Conference papers 2023''\<rparr> = pre @ ''Conference papers 2023'' @ post) \<and>
   collect_parts
     \<lparr>select_texts = (\<lambda>selector. if selector = ''p'' then [''0123456789''] else []),
      get_text = ''0123456789''\<rparr> selectors = [] \<and>
   parse_content
     \<lparr>select_texts = (\<lambda>selector. if selector = ''p'' then [''0123456789''] else []),
      get_text = ''0123456789''\<rparr> =
   take 2000 (get_text
     \<lparr>select_texts = (\<lambda>selector. if selector = ''p'' then [''0123456789''] else []),
      get_text = ''0123456789''\<rparr>)"
proof -
  let ?d = "\<lparr>select_texts = (\<lambda>selector. if selector = ''h1''
                                    then [''Home'', ''Conference papers 2023''] else []),
      get_text = ''Home\<newline>Conference papers 2023''\<rparr>"
  let ?e = "\<lparr>select_texts = (\<lambda>selector. if selector = ''p'' then [''0123456789''] else []),
      get_text = ''0123456789''\<rparr>"
  have h1: "collect_parts ?d selectors \<noteq> []"
    by (simp add: selectors_def dquote_def truthy_def)
  have h2: "''Conference papers 2023'' \<in> set (take 20 (collect_parts ?d selectors))"
    by (simp add: selectors_def dquote_def truthy_def)
  have h3: "collect_parts ?e selectors = []"
    by (simp add: selectors_def dquote_def truthy_def)
  note t = fragment_kept_iff_longer_than_ten [of ?d "''Conference papers 2023''"]
  from t h1
  have c1: "parse_content ?d = py_join ''\<newline>\<newline>'' (take 20 (collect_parts ?d selectors))"
    by blast
  from t h2
  have c2: "\<exists>pre post. parse_content ?d = pre @ ''Conference papers 2023'' @ post"
    by blast
  from fragment_kept_iff_longer_than_ten [of ?e "''0123456789''"] h3
  have c3: "parse_content ?e = take 2000 (get_text ?e)"
    by blast
  from h1 c1 h2 c2 h3 c3 show ?thesis
    by (intro conjI)
qed

section \<open>Link lookup\<close>

text \<open>
  C8, as stated, fails: for the platform \<open>linkedin\<close> the result is not the configured
  URL alone but the URL behind the label \<open>Linkedin: \<close>.
\<close>

theorem linkedin_result_is_labelled:
  "getitem social_urls ''linkedin'' = Inr ''https://www.linkedin.com/in/haris-gulzar/'' \<and>
   handle_call_tool (\<lambda>u. Failed ''offline'') ''get_social_links'' (Some [(''platform'', ''linkedin'')]) =
     text_result ''Linkedin: https://www.linkedin.com/in/haris-gulzar/'' \<and>
   ''Linkedin: https://www.linkedin.com/in/haris-gulzar/'' \<noteq>
     ''https://www.linkedin.com/in/haris-gulzar/''"
  by (simp add: handle_call_tool_def call_tool_body_def get_social_links_def get_or_def
        getitem_def social_urls_def py_title_def ascii_upper_def ascii_lower_def
        ascii_to_upper_def ascii_to_lower_def text_result_def)

text \<open>
  C8, amended. For \<open>linkedin\<close> the result is the label \<open>Linkedin: \<close> followed by the
  configured LinkedIn URL; for \<open>unknown_xyz\<close> it is the message that the platform is not
  found, with the four platforms listed; and absent arguments, or arguments without
  \<open>platform\<close>, give the result of \<open>platform = all\<close>.
\<close>

theorem get_social_links_cases:
  "handle_call_tool w ''get_social_links'' (Some [(''platform'', ''linkedin'')]) =
     text_result (''Linkedin: '' @ ''https://www.linkedin.com/in/haris-gulzar/'') \<and>
   map_of social_urls ''linkedin'' = Some ''https://www.linkedin.com/in/haris-gulzar/'' \<and>
   handle_call_tool w ''get_social_links'' (Some [(''platform'', ''unknown_xyz'')]) =
     text_result (''Platform '' @ quote @ ''unknown_xyz'' @ quote @
                  '' not found. Available platforms: linkedin, instagram, facebook, youtube'') \<and>
   handle_call_tool w ''get_social_links'' None =
     handle_call_tool w ''get_social_links'' (Some [(''platform'', ''all'')]) \<and>
   (map_of d ''platform'' = None \<longrightarrow>
      handle_call_tool w ''get_social_links'' (Some d) =
      handle_call_tool w ''get_social_links'' (Some [(''platform'', ''all'')]))"
proof (intro conjI impI)
  show "handle_call_tool w ''get_social_links'' (Some [(''platform'', ''linkedin'')]) =
     text_result (''Linkedin: '' @ ''https://www.linkedin.com/in/haris-gulzar/'')"
    by (simp add: handle_call_tool_def call_tool_body_def get_social_links_def get_or_def
        social_urls_def py_title_def ascii_upper_def ascii_lower_def
        ascii_to_upper_def ascii_to_lower_def)
  show "map_of social_urls ''linkedin'' = Some ''https://www.linkedin.com/in/haris-gulzar/''"
    by (simp add: social_urls_def)
  show "handle_call_tool w ''get_social_links'' (Some [(''platform'', ''unknown_xyz'')]) =
     text_result (''Platform '' @ quote @ ''unknown_xyz'' @ quote @
                  '' not found. Available platforms: linkedin, instagram, facebook, youtube'')"
    by (simp add: handle_call_tool_def call_tool_body_def get_social_links_def get_or_def
        social_urls_def)
  show "handle_call_tool w ''get_social_links'' None =
     handle_call_tool w ''get_social_links'' (Some [(''platform'', ''all'')])"
    by (simp add: handle_call_tool_def call_tool_body_def get_or_def)
  assume "map_of d ''platform'' = None"
  then show "handle_call_tool w ''get_social_links'' (Some d) =
      handle_call_tool w ''get_social_links'' (Some [(''platform'', ''all'')])"
    by (simp add: handle_call_tool_def call_tool_body_def get_or_def)
qed

text \<open>Arguments that hold another key only.\<close>

theorem get_social_links_cases_witness:
  "map_of [(''verbose'', ''yes'')] ''platform'' = None \<and>
   handle_call_tool (\<lambda>u. Failed ''offline'') ''get_social_links'' (Some [(''verbose'', ''yes'')]) =
   handle_call_tool (\<lambda>u. Failed ''offline'') ''get_social_links'' (Some [(''platform'', ''all'')])"
proof -
  have h: "map_of [(''verbose'', ''yes'')] ''platform'' = None"
    by simp
  from get_social_links_cases [of "\<lambda>u. Failed ''offline''" "[(''verbose'', ''yes'')]"] h
  have "handle_call_tool (\<lambda>u. Failed ''offline'') ''get_social_links'' (Some [(''verbose'', ''yes'')]) =
        handle_call_tool (\<lambda>u. Failed ''offline'') ''get_social_links'' (Some [(''platform'', ''all'')])"
    by blast
  with h show ?thesis by (rule conjI)
qed

section \<open>Dispatch\<close>

lemma catalog_names:
  "map tool_name handle_list_tools =
     [''get_profile_overview'', ''get_experience'', ''get_publications'',
      ''get_career_timeline'', ''get_social_links'', ''search_profile_content'']"
  by (simp add: handle_list_tools_def)

text \<open>
  C9. An invocation whose name is none of the six names of the catalog gives, whatever
  its arguments and whatever the pages hold, one text result: the error that names the
  unknown tool. The client's \<open>call_tool\<close> receives it as an ordinary answer.
\<close>

theorem unknown_tool_error:
  "name \<notin> set (map tool_name handle_list_tools) \<Longrightarrow>
   handle_call_tool w name arguments = text_result (''Error: Unknown tool: '' @ name) \<and>
   snd (call_tool (served_by w) (Some (Session log)) name arguments) =
     Inr (''Error: Unknown tool: '' @ name)"
proof -
  assume "name \<notin> set (map tool_name handle_list_tools)"
  then have n: "name \<noteq> ''get_profile_overview''" "name \<noteq> ''get_experience''"
    "name \<noteq> ''get_publications''" "name \<noteq> ''get_career_timeline''"
    "name \<noteq> ''get_social_links''" "name \<noteq> ''search_profile_content''"
    unfolding catalog_names by auto
  then have b: "call_tool_body w name args = Inl (ValueError (''Unknown tool: '' @ name))" for args
    by (simp add: call_tool_body_def)
  have h: "handle_call_tool w name args = text_result (''Error: Unknown tool: '' @ name)" for args
    by (simp add: handle_call_tool_def b)
  show ?thesis
    by (simp add: h call_tool_def served_by_def text_result_def Let_def)
qed

text \<open>The name \<open>get_weather\<close> is not in the catalog.\<close>

theorem unknown_tool_error_witness:
  "''get_weather'' \<notin> set (map tool_name handle_list_tools) \<and>
   handle_call_tool (\<lambda>u. Failed ''offline'') ''get_weather'' (Some [(''city'', ''Tokyo'')]) =
     text_result ''Error: Unknown tool: get_weather''"
proof -
  have h: "''get_weather'' \<notin> set (map tool_name handle_list_tools)"
    unfolding catalog_names by simp
  from unknown_tool_error [OF h, of "\<lambda>u. Failed ''offline''" "Some [(''city'', ''Tokyo'')]" "[]"]
  have "handle_call_tool (\<lambda>u. Failed ''offline'') ''get_weather'' (Some [(''city'', ''Tokyo'')]) =
     text_result ''Error: Unknown tool: get_weather''"
    by simp
  with h show ?thesis by (rule conjI)
qed

section \<open>The interactive commands\<close>

lemma control_answer_query:
  "control (answer_query remote ol hf s user_input) = Continue"
  by (simp add: answer_query_def Let_def split: prod.splits sum.splits)

text \<open>
  C10, as stated, fails: the line \<open>quit\<close> is none of the four commands and is not empty,
  but it ends the session instead of being answered as a question; and \<open>/HELP\<close>, which
  is not the literal \<open>/help\<close>, shows the usage.
\<close>

theorem bare_quit_ends_the_session:
  "''quit'' \<notin> set [''/tools'', ''/help'', ''/quit'', ''/exit''] \<and> ''quit'' \<noteq> [] \<and>
   chat_round (served_by (\<lambda>u. Failed ''offline'')) handle_list_tools
       (\<lambda>q c. Inr None) (\<lambda>q c. Inr None) (Some (Session [])) ''quit'' =
     \<lparr>printed = [], after = Some (Session []), control = Break\<rparr> \<and>
   control (chat_round (served_by (\<lambda>u. Failed ''offline'')) handle_list_tools
       (\<lambda>q c. Inr None) (\<lambda>q c. Inr None) (Some (Session [])) ''/HELP'') = Continue \<and>
   printed (chat_round (served_by (\<lambda>u. Failed ''offline'')) handle_list_tools
       (\<lambda>q c. Inr None) (\<lambda>q c. Inr None) (Some (Session [])) ''/HELP'') = help_lines"
  by (simp add: chat_round_def Let_def py_strip_def is_space_def py_lower_def lower_char_def
        upper_letters_def lower_letters_def)

text \<open>
  C10, amended. The line is trimmed and compared in lower case. The loop ends exactly
  on \<open>/quit\<close>, \<open>/exit\<close>, \<open>quit\<close> and \<open>exit\<close>; \<open>/help\<close> shows the usage; \<open>/tools\<close> lists
  the tools; a blank line does nothing; every other line is answered as a question.
\<close>

theorem chat_round_commands:
  "(control (chat_round remote listing ol hf s typed) = Break \<longleftrightarrow>
      py_lower (py_strip typed) \<in> {''/quit'', ''/exit'', ''quit'', ''exit''}) \<and>
   (py_lower (py_strip typed) = ''/help'' \<longrightarrow>
      chat_round remote listing ol hf s typed =
        \<lparr>printed = help_lines, after = s, control = Continue\<rparr>) \<and>
   (py_lower (py_strip typed) = ''/tools'' \<longrightarrow>
      chat_round remote listing ol hf (Some (Session log)) typed =
        \<lparr>printed = ''Available tools:'' #
                    map (\<lambda>t. ''- '' @ tool_name t @ '': '' @ tool_description t) listing,
         after = Some (Session log), control = Continue\<rparr>) \<and>
   (py_strip typed = [] \<longrightarrow>
      chat_round remote listing ol hf s typed = \<lparr>printed = [], after = s, control = Continue\<rparr>) \<and>
   (py_strip typed \<noteq> [] \<and>
    py_lower (py_strip typed) \<notin> {''/quit'', ''/exit'', ''quit'', ''exit'', ''/help'', ''/tools''} \<longrightarrow>
      chat_round remote listing ol hf s typed =
        answer_query remote ol hf s (py_strip typed))"
proof (intro conjI impI)
  show "control (chat_round remote listing ol hf s typed) = Break \<longleftrightarrow>
      py_lower (py_strip typed) \<in> {''/quit'', ''/exit'', ''quit'', ''exit''}"
    by (auto simp: chat_round_def Let_def control_answer_query split: sum.splits)
next
  assume "py_lower (py_strip typed) = ''/help''"
  then show "chat_round remote listing ol hf s typed =
        \<lparr>printed = help_lines, after = s, control = Continue\<rparr>"
    by (simp add: chat_round_def Let_def)
next
  assume "py_lower (py_strip typed) = ''/tools''"
  then show "chat_round remote listing ol hf (Some (Session log)) typed =
        \<lparr>printed = ''Available tools:'' #
                    map (\<lambda>t. ''- '' @ tool_name t @ '': '' @ tool_description t) listing,
         after = Some (Session log), control = Continue\<rparr>"
    by (simp add: chat_round_def Let_def get_available_tools_def comp_def)
next
  assume "py_strip typed = []"
  then show "chat_round remote listing ol hf s typed = \<lparr>printed = [], after = s, control = Continue\<rparr>"
    by (simp add: chat_round_def Let_def py_lower_def truthy_def)
next
  assume "py_strip typed \<noteq> [] \<and>
    py_lower (py_strip typed) \<notin> {''/quit'', ''/exit'', ''quit'', ''exit'', ''/help'', ''/tools''}"
  then show "chat_round remote listing ol hf s typed =
        answer_query remote ol hf s (py_strip typed)"
    by (simp add: chat_round_def Let_def truthy_def)
qed

text \<open>
  The four kinds of line: \<open>/Help\<close> between blanks, \<open>/tools\<close>, a blank line and a
  question.
\<close>

theorem chat_round_commands_witness:
  "py_lower (py_strip '' /Help '') = ''/help'' \<and>
   chat_round (served_by (\<lambda>u. Failed ''offline'')) handle_list_tools
       (\<lambda>q c. Inr None) (\<lambda>q c. Inr None) (Some (Session [])) '' /Help '' =
     \<lparr>printed = help_lines, after = Some (Session []), control = Continue\<rparr> \<and>
   py_lower (py_strip ''/tools'') = ''/tools'' \<and>
   chat_round (served_by (\<lambda>u. Failed ''offline'')) handle_list_tools
       (\<lambda>q c. Inr None) (\<lambda>q c. Inr None) (Some (Session [])) ''/tools'' =
     \<lparr>printed = ''Available tools:'' #
                 map (\<lambda>t. ''- '' @ tool_name t @ '': '' @ tool_description t) handle_list_tools,
      after = Some (Session []), control = Continue\<rparr> \<and>
   py_strip ''   '' = [] \<and>
   chat_round (served_by (\<lambda>u. Failed ''offline'')) handle_list_tools
       (\<lambda>q c. Inr None) (\<lambda>q c. Inr None) (Some (Session [])) ''   '' =
     \<lparr>printed = [], after = Some (Session []), control = Continue\<rparr> \<and>
   py_strip '' Who is he? '' \<noteq> [] \<and>
   py_lower (py_strip '' Who is he? '') \<notin>
     {''/quit'', ''/exit'', ''quit'', ''exit'', ''/help'', ''/tools''} \<and>
   chat_round (served_by (\<lambda>u. Failed ''offline'')) handle_list_tools
       (\<lambda>q c. Inr None) (\<lambda>q c. Inr None) (Some (Session [])) '' Who is he? '' =
     answer_query (served_by (\<lambda>u. Failed ''offline''))
       (\<lambda>q c. Inr None) (\<lambda>q c. Inr None) (Some (Session [])) (py_strip '' Who is he? '')"
proof -
  have h1: "py_lower (py_strip '' /Help '') = ''/help''"
    by code_simp
  have h2: "py_lower (py_strip ''/tools'') = ''/tools''"
    by code_simp
  have h3: "py_strip ''   '' = []"
    by code_simp
  have h4: "py_strip '' Who is he? '' \<noteq> []"
    by code_simp
  have h5: "py_lower (py_strip '' Who is he? '') \<notin>
     {''/quit'', ''/exit'', ''quit'', ''exit'', ''/help'', ''/tools''}"
    by code_simp
  note t = chat_round_commands
    [where remote = "served_by (\<lambda>u. Failed ''offline'')" and listing = handle_list_tools
       and ol = "\<lambda>q c. Inr None" and hf = "\<lambda>q c. Inr None" and s = "Some (Session [])"
       and log = "[]"]
  from t [of "'' /Help ''"] h1
  have c1: "chat_round (served_by (\<lambda>u. Failed ''offline'')) handle_list_tools
       (\<lambda>q c. Inr None) (\<lambda>q c. Inr None) (Some (Session [])) '' /Help '' =
     \<lparr>printed = help_lines, after = Some (Session []), control = Continue\<rparr>"
    by blast
  from t [of "''/tools''"] h2
  have c2: "chat_round (served_by (\<lambda>u. Failed ''offline'')) handle_list_tools
       (\<lambda>q c. Inr None) (\<lambda>q c. Inr None) (Some (Session [])) ''/tools'' =
     \<lparr>printed = ''Available tools:'' #
                 map (\<lambda>t. ''- '' @ tool_name t @ '': '' @ tool_description t) handle_list_tools,
      after = Some (Session []), control = Continue\<rparr>"
    by blast
  from t [of "''   ''"] h3
  have c3: "chat_round (served_by (\<lambda>u. Failed ''offline'')) handle_list_tools
       (\<lambda>q c. Inr None) (\<lambda>q c. Inr None) (Some (Session [])) ''   '' =
     \<lparr>printed = [], after = Some (Session []), control = Continue\<rparr>"
    by blast
  from t [of "'' Who is he? ''"] h4 h5
  have c4: "chat_round (served_by (\<lambda>u. Failed ''offline'')) handle_list_tools
       (\<lambda>q c. Inr None) (\<lambda>q c. Inr None) (Some (Session [])) '' Who is he? '' =
     answer_query (served_by (\<lambda>u. Failed ''offline''))
       (\<lambda>q c. Inr None) (\<lambda>q c. Inr None) (Some (Session [])) (py_strip '' Who is he? '')"
    by blast
  from h1 c1 h2 c2 h3 c3 h4 h5 c4 show ?thesis
    by (intro conjI)
qed

end
